theory Spec2Isabelle
  imports Main
begin

section \<open>The page-verification scripts\<close>

text \<open>
  The repository holds two scripts, \<^verbatim>\<open>verify_setup.py\<close> and
  \<^verbatim>\<open>verify_visualization.py\<close>. Each drives a headless browser through the
  Playwright library: launch, open a page, navigate, query, take screenshots, close.
  The scripts contain no computation of their own; what they fix is the order of the
  library calls, which of them are guarded by \<^verbatim>\<open>try\<close>/\<^verbatim>\<open>except\<close>, what
  is printed and which files are written.

  The library and the browser behind it are not part of the repository. They enter the
  model as a parameter: a record that says, for every call a script can make, whether
  the call raises or returns and with which value, and which page events arrive while
  the call is waiting for the browser. A script is then a function from that record and
  the state of the process to an outcome and a new state.
\<close>

subsection \<open>Values\<close>

type_synonym selector = string
type_synonym path = string
type_synonym bytes = "nat list"

text \<open>
  A failing library call raises Playwright's \<^verbatim>\<open>Error\<close> (or its subclass
  \<^verbatim>\<open>TimeoutError\<close>), an instance of Python's \<^verbatim>\<open>Exception\<close> that carries a
  message; \<^verbatim>\<open>str(e)\<close> is that message.
\<close>

datatype exn = Error string

fun str :: "exn \<Rightarrow> string" where
  "str (Error m) = m"

text \<open>The two kinds of page event the scripts may listen to, each with its text.\<close>

datatype event = ConsoleMessage string | PageError string

fun event_name :: "event \<Rightarrow> string" where
  "event_name (ConsoleMessage t) = ''console''"
| "event_name (PageError t) = ''pageerror''"

fun event_text :: "event \<Rightarrow> string" where
  "event_text (ConsoleMessage t) = t"
| "event_text (PageError t) = t"

text \<open>
  The calls a script makes, with the arguments the source passes. An argument the
  source leaves out is \<open>None\<close>: \<^verbatim>\<open>page.screenshot(path=...)\<close> passes no
  \<^verbatim>\<open>full_page\<close>, \<^verbatim>\<open>launch(headless=True)\<close> passes no \<^verbatim>\<open>args\<close>.
  \<open>IsVisible sel\<close> stands for \<^verbatim>\<open>page.locator(sel).is_visible()\<close>, \<open>Count sel\<close> for
  \<^verbatim>\<open>page.locator(sel).count()\<close> and \<open>ElementScreenshot sel p\<close> for
  \<^verbatim>\<open>page.locator(sel).screenshot(path=p)\<close>; building a locator contacts nothing.
\<close>

datatype call =
    PlaywrightStart
  | Launch bool "string list option"
  | NewPage
  | On string
  | Goto string
  | WaitForLoadState string
  | Sleep nat
  | Title
  | IsVisible selector
  | Count selector
  | PageScreenshot path "bool option"
  | ElementScreenshot selector path
  | Close
  | PlaywrightStop

subsection \<open>The library as a parameter, the process as a state\<close>

record browser =
  start_result :: "exn + unit"
  launch_result :: "bool \<Rightarrow> string list option \<Rightarrow> exn + unit"
  new_page_result :: "exn + unit"
  on_result :: "string \<Rightarrow> exn + unit"
  goto_result :: "string \<Rightarrow> exn + unit"
  wait_for_load_state_result :: "string \<Rightarrow> exn + unit"
  title_result :: "exn + string"
  is_visible_result :: "selector \<Rightarrow> exn + bool"
  count_result :: "selector \<Rightarrow> exn + nat"
  page_screenshot_result :: "path \<Rightarrow> bool option \<Rightarrow> exn + bytes"
  element_screenshot_result :: "selector \<Rightarrow> path \<Rightarrow> exn + bytes"
  close_result :: "exn + unit"
  stop_result :: "exn + unit"
  emits :: "call \<Rightarrow> event list"

text \<open>
  The state of a run: the lines printed so far, the files on disk, the calls made so
  far (oldest first) and the listeners registered on the page. A listener is the event
  name it was registered for and the line its handler prints for an event's text.
\<close>

record process =
  log :: "string list"
  files :: "path \<rightharpoonup> bytes"
  calls :: "call list"
  listeners :: "(string \<times> (string \<Rightarrow> string)) list"

definition start :: "(path \<rightharpoonup> bytes) \<Rightarrow> process" where
  "start disk = \<lparr>log = [], files = disk, calls = [], listeners = []\<rparr>"

type_synonym 'a prog = "process \<Rightarrow> (exn + 'a) \<times> process"

definition ret :: "'a \<Rightarrow> 'a prog" where
  "ret x s = (Inr x, s)"

definition bind :: "'a prog \<Rightarrow> ('a \<Rightarrow> 'b prog) \<Rightarrow> 'b prog" where
  "bind m f s = (case m s of (Inl e, s') \<Rightarrow> (Inl e, s') | (Inr x, s') \<Rightarrow> f x s')"

text \<open>\<^verbatim>\<open>try: m except Exception as e: h(e)\<close>\<close>

definition try_except :: "'a prog \<Rightarrow> (exn \<Rightarrow> 'a prog) \<Rightarrow> 'a prog" where
  "try_except m h s = (case m s of (Inl e, s') \<Rightarrow> h e s' | (Inr x, s') \<Rightarrow> (Inr x, s'))"

text \<open>\<^verbatim>\<open>print(line)\<close>\<close>

definition print :: "string \<Rightarrow> unit prog" where
  "print line s = (Inr (), s\<lparr>log := log s @ [line]\<rparr>)"

text \<open>
  Every listener registered for an event's name prints its line, in the order of
  registration.
\<close>

definition deliver :: "(string \<times> (string \<Rightarrow> string)) list \<Rightarrow> event \<Rightarrow> string list" where
  "deliver ls ev = map (\<lambda>l. snd l (event_text ev)) (filter (\<lambda>l. fst l = event_name ev) ls)"

text \<open>
  The lines printed while a call waits for the browser: the events that arrive
  meanwhile are delivered, in their order, to the listeners registered by then.
\<close>

definition heard :: "browser \<Rightarrow> (string \<times> (string \<Rightarrow> string)) list \<Rightarrow> call \<Rightarrow> string list" where
  "heard b ls c = concat (map (deliver ls) (emits b c))"

definition called :: "browser \<Rightarrow> call \<Rightarrow> process \<Rightarrow> process" where
  "called b c s = s\<lparr>calls := calls s @ [c], log := log s @ heard b (listeners s) c\<rparr>"

subsection \<open>The library calls\<close>

definition playwright_start :: "browser \<Rightarrow> unit prog" where
  "playwright_start b s = (start_result b, called b PlaywrightStart s)"

definition playwright_stop :: "browser \<Rightarrow> unit prog" where
  "playwright_stop b s = (stop_result b, called b PlaywrightStop s)"

definition chromium_launch :: "browser \<Rightarrow> bool \<Rightarrow> string list option \<Rightarrow> unit prog" where
  "chromium_launch b headless args s =
     (launch_result b headless args, called b (Launch headless args) s)"

definition browser_new_page :: "browser \<Rightarrow> unit prog" where
  "browser_new_page b s = (new_page_result b, called b NewPage s)"

text \<open>
  \<^verbatim>\<open>page.on(name, handler)\<close> records the handler on the page object; it does not
  wait for the browser, so no event is delivered during it.
\<close>

definition page_on :: "browser \<Rightarrow> string \<Rightarrow> (string \<Rightarrow> string) \<Rightarrow> unit prog" where
  "page_on b name handler s =
     (case on_result b name of
        Inl e \<Rightarrow> (Inl e, s\<lparr>calls := calls s @ [On name]\<rparr>)
      | Inr u \<Rightarrow> (Inr (), s\<lparr>calls := calls s @ [On name],
                              listeners := listeners s @ [(name, handler)]\<rparr>))"

definition page_goto :: "browser \<Rightarrow> string \<Rightarrow> unit prog" where
  "page_goto b url s = (goto_result b url, called b (Goto url) s)"

definition page_wait_for_load_state :: "browser \<Rightarrow> string \<Rightarrow> unit prog" where
  "page_wait_for_load_state b st s =
     (wait_for_load_state_result b st, called b (WaitForLoadState st) s)"

text \<open>\<^verbatim>\<open>time.sleep(n)\<close> returns after the delay; nothing is delivered meanwhile.\<close>

definition time_sleep :: "nat \<Rightarrow> unit prog" where
  "time_sleep n s = (Inr (), s\<lparr>calls := calls s @ [Sleep n]\<rparr>)"

definition page_title :: "browser \<Rightarrow> string prog" where
  "page_title b s = (title_result b, called b Title s)"

definition locator_is_visible :: "browser \<Rightarrow> selector \<Rightarrow> bool prog" where
  "locator_is_visible b sel s = (is_visible_result b sel, called b (IsVisible sel) s)"

definition locator_count :: "browser \<Rightarrow> selector \<Rightarrow> nat prog" where
  "locator_count b sel s = (count_result b sel, called b (Count sel) s)"

text \<open>
  A screenshot that returns has written its bytes to the path, replacing the file
  if there was one; a screenshot that raises has written nothing.
\<close>

definition page_screenshot :: "browser \<Rightarrow> path \<Rightarrow> bool option \<Rightarrow> unit prog" where
  "page_screenshot b p full_page s =
     (case page_screenshot_result b p full_page of
        Inl e \<Rightarrow> (Inl e, called b (PageScreenshot p full_page) s)
      | Inr img \<Rightarrow>
          (Inr (), (called b (PageScreenshot p full_page) s)\<lparr>files := (files s)(p \<mapsto> img)\<rparr>))"

definition locator_screenshot :: "browser \<Rightarrow> selector \<Rightarrow> path \<Rightarrow> unit prog" where
  "locator_screenshot b sel p s =
     (case element_screenshot_result b sel p of
        Inl e \<Rightarrow> (Inl e, called b (ElementScreenshot sel p) s)
      | Inr img \<Rightarrow>
          (Inr (), (called b (ElementScreenshot sel p) s)\<lparr>files := (files s)(p \<mapsto> img)\<rparr>))"

definition browser_close :: "browser \<Rightarrow> unit prog" where
  "browser_close b s = (close_result b, called b Close s)"

text \<open>
  \<^verbatim>\<open>with sync_playwright() as p: body\<close>. When entering raises, the body does not
  run. Otherwise the context is left after the body, whether the body returned or
  raised; an exception of the body goes on to the caller, unless leaving raises itself.
\<close>

definition with_sync_playwright :: "browser \<Rightarrow> 'a prog \<Rightarrow> 'a prog" where
  "with_sync_playwright b body s =
     (case playwright_start b s of
        (Inl e, s1) \<Rightarrow> (Inl e, s1)
      | (Inr u, s1) \<Rightarrow>
          (case body s1 of
             (r, s2) \<Rightarrow>
               (case playwright_stop b s2 of
                  (Inl e, s3) \<Rightarrow> (Inl e, s3)
                | (Inr u', s3) \<Rightarrow> (r, s3))))"

subsection \<open>The literals of the scripts\<close>

definition dev_server :: string where
  "dev_server = ''http://localhost:5173''"

definition networkidle :: string where
  "networkidle = ''networkidle''"

definition sidebar :: selector where
  "sidebar = ''.sidebar''"

definition num_a :: selector where
  "num_a = ''#num-a''"

definition demo_svg :: selector where
  "demo_svg = ''#demo-svg''"

definition verification_png :: path where
  "verification_png = ''verification.png''"

definition verification_svg_png :: path where
  "verification_svg_png = ''verification_svg.png''"

subsection \<open>verify\_setup.py\<close>

text \<open>The body of the \<^verbatim>\<open>try\<close> block of \<^verbatim>\<open>verify\<close>, lines 9 to 28.\<close>

definition verify_try :: "browser \<Rightarrow> unit prog" where
  "verify_try b =
     bind (page_goto b dev_server) (\<lambda>_.
     bind (page_wait_for_load_state b networkidle) (\<lambda>_.
     bind (page_title b) (\<lambda>title.
     bind (print (''Page title: '' @ title)) (\<lambda>_.
     bind (locator_is_visible b sidebar) (\<lambda>sidebar_visible.
     bind (if sidebar_visible then print ''Sidebar is visible''
           else print ''Sidebar is NOT visible'') (\<lambda>_.
     bind (locator_is_visible b num_a) (\<lambda>slider_a_visible.
     bind (if slider_a_visible then print ''Slider A is visible'' else ret ()) (\<lambda>_.
     page_screenshot b verification_png None))))))))"

text \<open>
  Lines 5 and 6 register the two observers. Their handlers are the two lambdas
  \<^verbatim>\<open>lambda msg: print(f"Console: {msg.text}")\<close> and
  \<^verbatim>\<open>lambda exc: print(f"Page Error: {exc}")\<close>, here as the line each prints.
\<close>

definition on_console :: "string \<Rightarrow> string" where
  "on_console text = ''Console: '' @ text"

definition on_pageerror :: "string \<Rightarrow> string" where
  "on_pageerror exc = ''Page Error: '' @ exc"

definition verify_observe :: "browser \<Rightarrow> unit prog" where
  "verify_observe b =
     bind (page_on b ''console'' on_console) (\<lambda>_.
     page_on b ''pageerror'' on_pageerror)"

text \<open>The handler of line 31.\<close>

definition verify_except :: "exn \<Rightarrow> unit prog" where
  "verify_except e = print (''Error during verification: '' @ str e)"

definition verify :: "browser \<Rightarrow> unit prog" where
  "verify b =
     bind (verify_observe b) (\<lambda>_.
     try_except (verify_try b) verify_except)"

text \<open>The \<^verbatim>\<open>__main__\<close> block, lines 33 to 42.\<close>

definition verify_setup_main :: "browser \<Rightarrow> unit prog" where
  "verify_setup_main b =
     with_sync_playwright b
       (bind (chromium_launch b True (Some [''--enable-unsafe-webgpu''])) (\<lambda>_.
        bind (browser_new_page b) (\<lambda>_.
        bind (verify b) (\<lambda>_.
        browser_close b))))"

subsection \<open>verify\_visualization.py\<close>

definition verify_visualization :: "browser \<Rightarrow> unit prog" where
  "verify_visualization b =
     with_sync_playwright b
       (bind (chromium_launch b True None) (\<lambda>_.
        bind (browser_new_page b) (\<lambda>_.
        bind (page_goto b dev_server) (\<lambda>_.
        bind (time_sleep 5) (\<lambda>_.
        bind (page_screenshot b verification_png (Some True)) (\<lambda>_.
        bind (locator_count b demo_svg) (\<lambda>n.
        bind (if n > 0 then locator_screenshot b demo_svg verification_svg_png
              else ret ()) (\<lambda>_.
        browser_close b))))))))"

subsection \<open>Vocabulary of the properties\<close>

text \<open>The line that the observers of \<^verbatim>\<open>verify\<close> print for an event.\<close>

fun line_of :: "event \<Rightarrow> string" where
  "line_of (ConsoleMessage t) = on_console t"
| "line_of (PageError t) = on_pageerror t"

text \<open>A call that returned, as opposed to one that raised.\<close>

definition returns :: "exn + 'a \<Rightarrow> bool" where
  "returns r = (\<not> isl r)"

text \<open>
  The steps of a run, numbered in the order the design gives them: launch, open,
  navigate and wait, check, capture, close, and leaving the library context.
  \<^verbatim>\<open>count()\<close> is the test that guards the element capture and belongs to it.
\<close>

fun phase :: "call \<Rightarrow> nat" where
  "phase PlaywrightStart = 0"
| "phase (Launch headless args) = 0"
| "phase NewPage = 1"
| "phase (On name) = 1"
| "phase (Goto url) = 2"
| "phase (WaitForLoadState st) = 2"
| "phase (Sleep n) = 2"
| "phase Title = 3"
| "phase (IsVisible sel) = 3"
| "phase (Count sel) = 4"
| "phase (PageScreenshot p full_page) = 4"
| "phase (ElementScreenshot sel p) = 4"
| "phase Close = 5"
| "phase PlaywrightStop = 6"

text \<open>
  A capture of the full page asks for it with \<^verbatim>\<open>full_page=True\<close>; without the
  argument the library captures the visible viewport only.
\<close>

fun full_page_or_element :: "call \<Rightarrow> bool" where
  "full_page_or_element (PageScreenshot p full_page) = (full_page = Some True)"
| "full_page_or_element c = True"

text \<open>
  The captures of the scripts: of the page, into \<^verbatim>\<open>verification.png\<close>, with the
  given \<^verbatim>\<open>full_page\<close> argument, or of the element \<^verbatim>\<open>#demo-svg\<close>, into
  \<^verbatim>\<open>verification_svg.png\<close>.
\<close>

fun capture_as :: "bool option \<Rightarrow> call \<Rightarrow> bool" where
  "capture_as fp (PageScreenshot p full_page) = (p = verification_png \<and> full_page = fp)"
| "capture_as fp (ElementScreenshot sel p) =
     (sel = demo_svg \<and> p = verification_svg_png)"
| "capture_as fp c = True"

subsection \<open>Some browsers\<close>

text \<open>The first bytes of a PNG file.\<close>

definition png :: bytes where
  "png = [137, 80, 78, 71, 13, 10, 26, 10]"

text \<open>
  A dev server that serves the page titled Demo, with every element the scripts look
  for present and visible; the page writes one console message while it loads.
\<close>

definition demo_browser :: browser where
  "demo_browser =
     \<lparr>start_result = Inr (),
      launch_result = (\<lambda>headless args. Inr ()),
      new_page_result = Inr (),
      on_result = (\<lambda>name. Inr ()),
      goto_result = (\<lambda>url. Inr ()),
      wait_for_load_state_result = (\<lambda>st. Inr ()),
      title_result = Inr ''Demo'',
      is_visible_result = (\<lambda>sel. Inr True),
      count_result = (\<lambda>sel. Inr 1),
      page_screenshot_result = (\<lambda>p full_page. Inr png),
      element_screenshot_result = (\<lambda>sel p. Inr png),
      close_result = Inr (),
      stop_result = Inr (),
      emits = (\<lambda>c. if c = Goto dev_server
                     then [ConsoleMessage ''ready''] else [])\<rparr>"

text \<open>No server listens on the port.\<close>

definition unreachable_browser :: browser where
  "unreachable_browser =
     demo_browser\<lparr>goto_result := (\<lambda>url. Inl (Error ''net::ERR_CONNECTION_REFUSED''))\<rparr>"

text \<open>The page has no element \<^verbatim>\<open>#demo-svg\<close>.\<close>

definition no_svg_browser :: browser where
  "no_svg_browser = demo_browser\<lparr>count_result := (\<lambda>sel. Inr 0)\<rparr>"

text \<open>The slider \<^verbatim>\<open>#num-a\<close> is not visible; everything else is.\<close>

definition hidden_slider_browser :: browser where
  "hidden_slider_browser =
     demo_browser\<lparr>is_visible_result := (\<lambda>sel. Inr (sel \<noteq> num_a))\<rparr>"

text \<open>
  The demo page keeps a connection busy: it is served, but never becomes idle, and the
  wait for the load state runs into its timeout.
\<close>

definition never_idle_browser :: browser where
  "never_idle_browser =
     demo_browser\<lparr>wait_for_load_state_result :=
                     (\<lambda>st. Inl (Error ''Timeout 30000ms exceeded.''))\<rparr>"

text \<open>The browser dies after the page was captured.\<close>

definition dying_browser :: browser where
  "dying_browser =
     demo_browser\<lparr>count_result := (\<lambda>sel. Inl (Error ''Target closed'')),
                   close_result := Inl (Error ''Target closed'')\<rparr>"

section \<open>Reasoning about runs\<close>

subsection \<open>Outcome and state of each construct\<close>

lemma called_simps [simp]:
  "calls (called b c s) = calls s @ [c]"
  "files (called b c s) = files s"
  "listeners (called b c s) = listeners s"
  "log (called b c s) = log s @ heard b (listeners s) c"
  by (simp_all add: called_def)

lemma start_simps [simp]:
  "calls (start disk) = []"
  "files (start disk) = disk"
  "listeners (start disk) = []"
  "log (start disk) = []"
  by (simp_all add: start_def)

lemma returns_simps [simp]:
  "returns (Inr x)"
  "\<not> returns (Inl e)"
  by (simp_all add: returns_def)

lemma fst_prims [simp]:
  "fst (playwright_start b s) = start_result b"
  "fst (playwright_stop b s) = stop_result b"
  "fst (chromium_launch b h a s) = launch_result b h a"
  "fst (browser_new_page b s) = new_page_result b"
  "fst (page_on b name handler s) = on_result b name"
  "fst (page_goto b url s) = goto_result b url"
  "fst (page_wait_for_load_state b st s) = wait_for_load_state_result b st"
  "fst (time_sleep n s) = Inr ()"
  "fst (page_title b s) = title_result b"
  "fst (locator_is_visible b sel s) = is_visible_result b sel"
  "fst (locator_count b sel s) = count_result b sel"
  "fst (browser_close b s) = close_result b"
  "fst (print line s) = Inr ()"
  "fst (ret x s) = Inr x"
  by (simp_all add: playwright_start_def playwright_stop_def chromium_launch_def
      browser_new_page_def page_on_def page_goto_def page_wait_for_load_state_def
      time_sleep_def page_title_def locator_is_visible_def locator_count_def
      browser_close_def print_def ret_def split: sum.splits)

lemma snd_prims [simp]:
  "snd (playwright_start b s) = called b PlaywrightStart s"
  "snd (playwright_stop b s) = called b PlaywrightStop s"
  "snd (chromium_launch b h a s) = called b (Launch h a) s"
  "snd (browser_new_page b s) = called b NewPage s"
  "snd (page_goto b url s) = called b (Goto url) s"
  "snd (page_wait_for_load_state b st s) = called b (WaitForLoadState st) s"
  "snd (time_sleep n s) = s\<lparr>calls := calls s @ [Sleep n]\<rparr>"
  "snd (page_title b s) = called b Title s"
  "snd (locator_is_visible b sel s) = called b (IsVisible sel) s"
  "snd (locator_count b sel s) = called b (Count sel) s"
  "snd (browser_close b s) = called b Close s"
  "snd (print line s) = s\<lparr>log := log s @ [line]\<rparr>"
  "snd (ret x s) = s"
  by (simp_all add: playwright_start_def playwright_stop_def chromium_launch_def
      browser_new_page_def page_goto_def page_wait_for_load_state_def
      time_sleep_def page_title_def locator_is_visible_def locator_count_def
      browser_close_def print_def ret_def)

lemma page_on_simps [simp]:
  "calls (snd (page_on b name handler s)) = calls s @ [On name]"
  "files (snd (page_on b name handler s)) = files s"
  "log (snd (page_on b name handler s)) = log s"
  "listeners (snd (page_on b name handler s)) =
     (if returns (on_result b name) then listeners s @ [(name, handler)] else listeners s)"
  by (simp_all add: page_on_def split: sum.splits)

lemma page_screenshot_simps [simp]:
  "fst (page_screenshot b p fp s) =
     (case page_screenshot_result b p fp of Inl e \<Rightarrow> Inl e | Inr img \<Rightarrow> Inr ())"
  "calls (snd (page_screenshot b p fp s)) = calls s @ [PageScreenshot p fp]"
  "listeners (snd (page_screenshot b p fp s)) = listeners s"
  "log (snd (page_screenshot b p fp s)) =
     log s @ heard b (listeners s) (PageScreenshot p fp)"
  "files (snd (page_screenshot b p fp s)) =
     (case page_screenshot_result b p fp of
        Inl e \<Rightarrow> files s | Inr img \<Rightarrow> (files s)(p \<mapsto> img))"
  by (simp_all add: page_screenshot_def split: sum.splits)

lemma locator_screenshot_simps [simp]:
  "fst (locator_screenshot b sel p s) =
     (case element_screenshot_result b sel p of Inl e \<Rightarrow> Inl e | Inr img \<Rightarrow> Inr ())"
  "calls (snd (locator_screenshot b sel p s)) = calls s @ [ElementScreenshot sel p]"
  "listeners (snd (locator_screenshot b sel p s)) = listeners s"
  "log (snd (locator_screenshot b sel p s)) =
     log s @ heard b (listeners s) (ElementScreenshot sel p)"
  "files (snd (locator_screenshot b sel p s)) =
     (case element_screenshot_result b sel p of
        Inl e \<Rightarrow> files s | Inr img \<Rightarrow> (files s)(p \<mapsto> img))"
  by (simp_all add: locator_screenshot_def split: sum.splits)

lemma fst_bind:
  "fst (bind m f s) = (case fst (m s) of Inl e \<Rightarrow> Inl e | Inr x \<Rightarrow> fst (f x (snd (m s))))"
  by (simp add: bind_def split: prod.splits sum.splits)

lemma snd_bind:
  "snd (bind m f s) = (case fst (m s) of Inl e \<Rightarrow> snd (m s) | Inr x \<Rightarrow> snd (f x (snd (m s))))"
  by (simp add: bind_def split: prod.splits sum.splits)

lemma fst_try_except:
  "fst (try_except m h s) =
     (case fst (m s) of Inl e \<Rightarrow> fst (h e (snd (m s))) | Inr x \<Rightarrow> Inr x)"
  by (simp add: try_except_def split: prod.splits sum.splits)

lemma snd_try_except:
  "snd (try_except m h s) =
     (case fst (m s) of Inl e \<Rightarrow> snd (h e (snd (m s))) | Inr x \<Rightarrow> snd (m s))"
  by (simp add: try_except_def split: prod.splits sum.splits)

lemma fst_with:
  "fst (with_sync_playwright b body s) =
     (case start_result b of
        Inl e \<Rightarrow> Inl e
      | Inr u \<Rightarrow>
          (case stop_result b of
             Inl e \<Rightarrow> Inl e
           | Inr u' \<Rightarrow> fst (body (called b PlaywrightStart s))))"
  by (simp add: with_sync_playwright_def playwright_start_def playwright_stop_def
      split: prod.splits sum.splits)

lemma snd_with:
  "snd (with_sync_playwright b body s) =
     (case start_result b of
        Inl e \<Rightarrow> called b PlaywrightStart s
      | Inr u \<Rightarrow> called b PlaywrightStop (snd (body (called b PlaywrightStart s))))"
  by (simp add: with_sync_playwright_def playwright_start_def playwright_stop_def
      split: prod.splits sum.splits)

lemma heard_none [simp]: "heard b [] c = []"
  by (induction "emits b c") (simp_all add: heard_def deliver_def)

lemma heard_verify:
  "heard b [(''console'', on_console), (''pageerror'', on_pageerror)] c =
   map line_of (emits b c)"
proof -
  have "concat (map (deliver [(''console'', on_console), (''pageerror'', on_pageerror)]) evs) =
        map line_of evs" for evs
  proof (induction evs)
    case Nil
    show ?case by simp
  next
    case (Cons ev evs)
    then show ?case by (cases ev) (simp_all add: deliver_def)
  qed
  then show ?thesis by (simp add: heard_def)
qed

subsection \<open>The try block of verify\<close>

lemma verify_try_fst:
  "fst (verify_try b s) =
     (case goto_result b dev_server of Inl e \<Rightarrow> Inl e | Inr u \<Rightarrow>
      case wait_for_load_state_result b networkidle of Inl e \<Rightarrow> Inl e | Inr u \<Rightarrow>
      case title_result b of Inl e \<Rightarrow> Inl e | Inr t \<Rightarrow>
      case is_visible_result b sidebar of Inl e \<Rightarrow> Inl e | Inr v \<Rightarrow>
      case is_visible_result b num_a of Inl e \<Rightarrow> Inl e | Inr v \<Rightarrow>
      case page_screenshot_result b verification_png None of
        Inl e \<Rightarrow> Inl e | Inr img \<Rightarrow> Inr ())"
  by (simp add: verify_try_def fst_bind sum.case_eq_if)

lemma verify_try_calls:
  "calls (snd (verify_try b s)) = calls s @
     Goto dev_server #
     (if isl (goto_result b dev_server) then [] else
      WaitForLoadState networkidle #
      (if isl (wait_for_load_state_result b networkidle) then [] else
       Title #
       (if isl (title_result b) then [] else
        IsVisible sidebar #
        (if isl (is_visible_result b sidebar) then [] else
         IsVisible num_a #
         (if isl (is_visible_result b num_a) then [] else
          [PageScreenshot verification_png None])))))"
  by (simp add: verify_try_def snd_bind sum.case_eq_if)

lemma verify_try_listeners: "listeners (snd (verify_try b s)) = listeners s"
  by (simp add: verify_try_def snd_bind sum.case_eq_if)

lemma verify_try_files:
  "files (snd (verify_try b s)) =
     (if isl (goto_result b dev_server) \<or> isl (wait_for_load_state_result b networkidle) \<or>
         isl (title_result b) \<or> isl (is_visible_result b sidebar) \<or>
         isl (is_visible_result b num_a)
      then files s
      else (case page_screenshot_result b verification_png None of
              Inl e \<Rightarrow> files s | Inr img \<Rightarrow> (files s)(verification_png \<mapsto> img)))"
  by (simp add: verify_try_def snd_bind sum.case_eq_if)

lemma verify_try_log:
  "log (snd (verify_try b s)) = log s @
     heard b (listeners s) (Goto dev_server) @
     (if isl (goto_result b dev_server) then [] else
      heard b (listeners s) (WaitForLoadState networkidle) @
      (if isl (wait_for_load_state_result b networkidle) then [] else
       heard b (listeners s) Title @
       (if isl (title_result b) then [] else
        [''Page title: '' @ projr (title_result b)] @
        heard b (listeners s) (IsVisible sidebar) @
        (if isl (is_visible_result b sidebar) then [] else
         [if projr (is_visible_result b sidebar) then ''Sidebar is visible''
          else ''Sidebar is NOT visible''] @
         heard b (listeners s) (IsVisible num_a) @
         (if isl (is_visible_result b num_a) then [] else
          (if projr (is_visible_result b num_a) then [''Slider A is visible''] else []) @
          heard b (listeners s) (PageScreenshot verification_png None))))))"
  by (simp add: verify_try_def snd_bind sum.case_eq_if)

lemma try_verify_except [simp]: "fst (try_except m verify_except s) = Inr ()"
  by (simp add: fst_try_except verify_except_def split: sum.splits)

lemma verify_except_simps [simp]:
  "calls (snd (verify_except e s)) = calls s"
  "files (snd (verify_except e s)) = files s"
  "listeners (snd (verify_except e s)) = listeners s"
  "log (snd (verify_except e s)) = log s @ [''Error during verification: '' @ str e]"
  by (simp_all add: verify_except_def)

subsection \<open>verify\<close>

lemma verify_observe_fst:
  "fst (verify_observe b s) =
     (case on_result b ''console'' of Inl e \<Rightarrow> Inl e | Inr u \<Rightarrow> on_result b ''pageerror'')"
  by (simp add: verify_observe_def fst_bind split: sum.splits)

lemma verify_observe_simps:
  "calls (snd (verify_observe b s)) = calls s @
     On ''console'' # (if isl (on_result b ''console'') then [] else [On ''pageerror''])"
  "files (snd (verify_observe b s)) = files s"
  "log (snd (verify_observe b s)) = log s"
  "listeners (snd (verify_observe b s)) = listeners s @
     (if isl (on_result b ''console'') then [] else
      (''console'', on_console) #
      (if isl (on_result b ''pageerror'') then []
       else [(''pageerror'', on_pageerror)]))"
  by (simp_all add: verify_observe_def snd_bind returns_def sum.case_eq_if)

lemma verify_fst:
  "fst (verify b s) =
     (case on_result b ''console'' of Inl e \<Rightarrow> Inl e | Inr u \<Rightarrow>
      case on_result b ''pageerror'' of Inl e \<Rightarrow> Inl e | Inr u \<Rightarrow> Inr ())"
  by (simp add: verify_def fst_bind verify_observe_fst split: sum.splits)

lemma verify_calls:
  "calls (snd (verify b s)) = calls s @
     On ''console'' #
     (if isl (on_result b ''console'') then [] else
      On ''pageerror'' #
      (if isl (on_result b ''pageerror'') then [] else
       Goto dev_server #
       (if isl (goto_result b dev_server) then [] else
        WaitForLoadState networkidle #
        (if isl (wait_for_load_state_result b networkidle) then [] else
         Title #
         (if isl (title_result b) then [] else
          IsVisible sidebar #
          (if isl (is_visible_result b sidebar) then [] else
           IsVisible num_a #
           (if isl (is_visible_result b num_a) then [] else
            [PageScreenshot verification_png None])))))))"
  by (simp add: verify_def snd_bind snd_try_except verify_observe_fst verify_observe_simps
      verify_try_calls sum.case_eq_if)

lemma verify_files:
  "files (snd (verify b s)) =
     (if isl (on_result b ''console'') \<or> isl (on_result b ''pageerror'') \<or>
         isl (goto_result b dev_server) \<or> isl (wait_for_load_state_result b networkidle) \<or>
         isl (title_result b) \<or> isl (is_visible_result b sidebar) \<or>
         isl (is_visible_result b num_a)
      then files s
      else (case page_screenshot_result b verification_png None of
              Inl e \<Rightarrow> files s | Inr img \<Rightarrow> (files s)(verification_png \<mapsto> img)))"
  by (simp add: verify_def snd_bind snd_try_except verify_observe_fst verify_observe_simps
      verify_try_files sum.case_eq_if)

lemma verify_listeners:
  "listeners (snd (verify b s)) = listeners (snd (verify_observe b s))"
  by (simp add: verify_def snd_bind snd_try_except verify_try_listeners sum.case_eq_if)

lemma verify_log:
  "log (snd (verify b s)) =
     (if isl (fst (verify_observe b s)) then log s
      else log (snd (verify_try b (snd (verify_observe b s)))) @
           (case fst (verify_try b (snd (verify_observe b s))) of
              Inl e \<Rightarrow> [''Error during verification: '' @ str e] | Inr u \<Rightarrow> []))"
  by (simp add: verify_def snd_bind snd_try_except verify_observe_simps sum.case_eq_if)

subsection \<open>The two scripts\<close>

lemma setup_calls:
  "calls (snd (verify_setup_main b (start disk))) =
     PlaywrightStart #
     (if isl (start_result b) then [] else
      (Launch True (Some [''--enable-unsafe-webgpu'']) #
       (if isl (launch_result b True (Some [''--enable-unsafe-webgpu''])) then [] else
        NewPage #
        (if isl (new_page_result b) then [] else
         On ''console'' #
         (if isl (on_result b ''console'') then [] else
          On ''pageerror'' #
          (if isl (on_result b ''pageerror'') then [] else
           (Goto dev_server #
            (if isl (goto_result b dev_server) then [] else
             WaitForLoadState networkidle #
             (if isl (wait_for_load_state_result b networkidle) then [] else
              Title #
              (if isl (title_result b) then [] else
               IsVisible sidebar #
               (if isl (is_visible_result b sidebar) then [] else
                IsVisible num_a #
                (if isl (is_visible_result b num_a) then [] else
                 [PageScreenshot verification_png None])))))) @
           [Close]))))) @
      [PlaywrightStop])"
  by (simp add: verify_setup_main_def snd_with snd_bind fst_bind verify_fst verify_calls
      sum.case_eq_if)

lemma setup_files:
  "files (snd (verify_setup_main b (start disk))) =
     (if isl (start_result b) \<or>
         isl (launch_result b True (Some [''--enable-unsafe-webgpu''])) \<or>
         isl (new_page_result b) \<or>
         isl (on_result b ''console'') \<or> isl (on_result b ''pageerror'') \<or>
         isl (goto_result b dev_server) \<or> isl (wait_for_load_state_result b networkidle) \<or>
         isl (title_result b) \<or> isl (is_visible_result b sidebar) \<or>
         isl (is_visible_result b num_a)
      then disk
      else (case page_screenshot_result b verification_png None of
              Inl e \<Rightarrow> disk | Inr img \<Rightarrow> disk(verification_png \<mapsto> img)))"
  by (simp add: verify_setup_main_def snd_with snd_bind fst_bind verify_fst verify_files
      sum.case_eq_if)

lemma vis_calls:
  "calls (snd (verify_visualization b (start disk))) =
     PlaywrightStart #
     (if isl (start_result b) then [] else
      Launch True None #
      (if isl (launch_result b True None) then [] else
       NewPage #
       (if isl (new_page_result b) then [] else
        Goto dev_server #
        (if isl (goto_result b dev_server) then [] else
         Sleep 5 #
         PageScreenshot verification_png (Some True) #
         (if isl (page_screenshot_result b verification_png (Some True)) then [] else
          Count demo_svg #
          (if isl (count_result b demo_svg) then []
           else if 0 < projr (count_result b demo_svg)
           then ElementScreenshot demo_svg verification_svg_png #
                (if isl (element_screenshot_result b demo_svg verification_svg_png)
                 then [] else [Close])
           else [Close]))))) @
      [PlaywrightStop])"
  by (simp add: verify_visualization_def snd_with snd_bind fst_bind sum.case_eq_if)

lemma vis_log: "log (snd (verify_visualization b (start disk))) = []"
  by (simp add: verify_visualization_def snd_with snd_bind fst_bind sum.case_eq_if)

lemma vis_files:
  "files (snd (verify_visualization b (start disk))) =
     (if isl (start_result b) \<or> isl (launch_result b True None) \<or>
         isl (new_page_result b) \<or> isl (goto_result b dev_server)
      then disk
      else case page_screenshot_result b verification_png (Some True) of
        Inl e \<Rightarrow> disk
      | Inr img \<Rightarrow>
          (case count_result b demo_svg of
             Inl e \<Rightarrow> disk(verification_png \<mapsto> img)
           | Inr n \<Rightarrow>
               if 0 < n
               then (case element_screenshot_result b demo_svg verification_svg_png of
                       Inl e \<Rightarrow> disk(verification_png \<mapsto> img)
                     | Inr img' \<Rightarrow> disk(verification_png \<mapsto> img, verification_svg_png \<mapsto> img'))
               else disk(verification_png \<mapsto> img)))"
  by (simp add: verify_visualization_def snd_with snd_bind fst_bind sum.case_eq_if)

lemma vis_fst:
  "fst (verify_visualization b (start disk)) =
     (case start_result b of Inl e \<Rightarrow> Inl e | Inr u \<Rightarrow>
      case stop_result b of Inl e \<Rightarrow> Inl e | Inr u \<Rightarrow>
      case launch_result b True None of Inl e \<Rightarrow> Inl e | Inr u \<Rightarrow>
      case new_page_result b of Inl e \<Rightarrow> Inl e | Inr u \<Rightarrow>
      case goto_result b dev_server of Inl e \<Rightarrow> Inl e | Inr u \<Rightarrow>
      case page_screenshot_result b verification_png (Some True) of Inl e \<Rightarrow> Inl e | Inr img \<Rightarrow>
      case count_result b demo_svg of Inl e \<Rightarrow> Inl e | Inr n \<Rightarrow>
        if 0 < n
        then (case element_screenshot_result b demo_svg verification_svg_png of
                Inl e \<Rightarrow> Inl e | Inr img' \<Rightarrow> close_result b)
        else close_result b)"
  by (simp add: verify_visualization_def fst_with fst_bind sum.case_eq_if)

lemma setup_log:
  assumes "start_result b = Inr ()"
    and "launch_result b True (Some [''--enable-unsafe-webgpu'']) = Inr ()"
    and "new_page_result b = Inr ()"
    and "on_result b ''console'' = Inr ()"
    and "on_result b ''pageerror'' = Inr ()"
  shows "log (snd (verify_setup_main b (start disk))) =
     map line_of (emits b (Goto dev_server)) @
     (if isl (goto_result b dev_server) then [] else
      map line_of (emits b (WaitForLoadState networkidle)) @
      (if isl (wait_for_load_state_result b networkidle) then [] else
       map line_of (emits b Title) @
       (if isl (title_result b) then [] else
        [''Page title: '' @ projr (title_result b)] @
        map line_of (emits b (IsVisible sidebar)) @
        (if isl (is_visible_result b sidebar) then [] else
         [if projr (is_visible_result b sidebar) then ''Sidebar is visible''
          else ''Sidebar is NOT visible''] @
         map line_of (emits b (IsVisible num_a)) @
         (if isl (is_visible_result b num_a) then [] else
          (if projr (is_visible_result b num_a) then [''Slider A is visible''] else []) @
          map line_of (emits b (PageScreenshot verification_png None))))))) @
     (case fst (verify_try b (start disk)) of
        Inl e \<Rightarrow> [''Error during verification: '' @ str e] | Inr u \<Rightarrow> []) @
     map line_of (emits b Close) @
     map line_of (emits b PlaywrightStop)"
  using assms
  by (simp add: verify_setup_main_def snd_with snd_bind fst_bind verify_fst verify_log
      verify_listeners verify_observe_fst verify_observe_simps verify_try_log verify_try_fst
      heard_verify)

lemma paths_distinct [simp]:
  "verification_png \<noteq> verification_svg_png"
  "verification_svg_png \<noteq> verification_png"
  by (simp_all add: verification_png_def verification_svg_png_def)

lemmas demo_defs = demo_browser_def unreachable_browser_def no_svg_browser_def
  hidden_slider_browser_def never_idle_browser_def dying_browser_def

section \<open>Properties\<close>

subsection \<open>Failures of the navigate, check and capture phase\<close>

text \<open>
  C1, as far as the code goes. In \<^verbatim>\<open>verify_setup.py\<close>, once the two observers are
  registered, \<^verbatim>\<open>verify\<close> returns to its caller without raising, whatever the calls of
  its \<^verbatim>\<open>try\<close> block do. When the block raises, the last thing \<^verbatim>\<open>verify\<close> adds to
  the log is the line \<^verbatim>\<open>Error during verification: \<close> followed by the description of
  the failure; in particular when \<^verbatim>\<open>page.goto\<close> raises because the page is unreachable.
\<close>

theorem verify_catches:
  assumes "fst (verify_observe b s) = Inr ()"
  shows "fst (verify b s) = Inr () \<and>
    (\<forall>e. fst (verify_try b (snd (verify_observe b s))) = Inl e \<longrightarrow>
       log (snd (verify b s)) =
         log (snd (verify_try b (snd (verify_observe b s)))) @
         [''Error during verification: '' @ str e]) \<and>
    (\<forall>e. goto_result b dev_server = Inl e \<longrightarrow>
       last (log (snd (verify b s))) = ''Error during verification: '' @ str e)"
proof (intro conjI allI impI)
  show "fst (verify b s) = Inr ()"
    using assms by (simp add: verify_def fst_bind)
next
  fix e
  assume "fst (verify_try b (snd (verify_observe b s))) = Inl e"
  with assms show "log (snd (verify b s)) =
      log (snd (verify_try b (snd (verify_observe b s)))) @
      [''Error during verification: '' @ str e]"
    by (simp add: verify_log)
next
  fix e
  assume "goto_result b dev_server = Inl e"
  then have "fst (verify_try b (snd (verify_observe b s))) = Inl e"
    by (simp add: verify_try_fst)
  with assms show "last (log (snd (verify b s))) = ''Error during verification: '' @ str e"
    by (simp add: verify_log)
qed

text \<open>With no server on the port, \<^verbatim>\<open>verify\<close> returns and the log ends with the error.\<close>

theorem verify_catches_witness:
  "fst (verify unreachable_browser (start Map.empty)) = Inr () \<and>
   last (log (snd (verify unreachable_browser (start Map.empty)))) =
     ''Error during verification: net::ERR_CONNECTION_REFUSED''"
  using verify_catches [of unreachable_browser "start Map.empty"]
  by (simp add: verify_observe_fst demo_defs)

text \<open>
  \<^verbatim>\<open>verify_visualization\<close> has no handler. With no server on the port, the error of
  \<^verbatim>\<open>page.goto\<close> reaches the caller of \<^verbatim>\<open>verify_visualization\<close>, and nothing is logged.
\<close>

theorem visualization_does_not_catch:
  "fst (verify_visualization unreachable_browser (start Map.empty)) =
     Inl (Error ''net::ERR_CONNECTION_REFUSED'') \<and>
   log (snd (verify_visualization unreachable_browser (start Map.empty))) = []"
  by (simp add: vis_fst vis_log demo_defs)

subsection \<open>Closing the browser\<close>

text \<open>
  C2, as far as the code goes. Neither script closes the browser in a \<^verbatim>\<open>finally\<close>
  clause; \<^verbatim>\<open>browser.close()\<close> is the last statement of the \<^verbatim>\<open>with\<close> block and is
  reached when nothing before it has raised out of the block. So in a run of
  \<^verbatim>\<open>verify_setup.py\<close> it is called exactly once when the context was entered, the
  browser launched, the page opened and both observers registered, whatever navigation,
  the checks and the capture do afterwards, since \<^verbatim>\<open>verify\<close> catches their
  exceptions; and not at all otherwise. In a run of \<^verbatim>\<open>verify_visualization.py\<close> it
  is called exactly once when every step before it returns, and not at all otherwise.
  No run calls it twice.
\<close>

theorem close_invoked:
  "count_list (calls (snd (verify_setup_main b (start disk)))) Close =
     (if returns (start_result b) \<and>
         returns (launch_result b True (Some [''--enable-unsafe-webgpu''])) \<and>
         returns (new_page_result b) \<and>
         returns (on_result b ''console'') \<and> returns (on_result b ''pageerror'')
      then 1 else 0) \<and>
   count_list (calls (snd (verify_visualization b (start disk)))) Close =
     (if returns (start_result b) \<and> returns (launch_result b True None) \<and>
         returns (new_page_result b) \<and> returns (goto_result b dev_server) \<and>
         returns (page_screenshot_result b verification_png (Some True)) \<and>
         (case count_result b demo_svg of
            Inl e \<Rightarrow> False
          | Inr n \<Rightarrow>
              n = 0 \<or> returns (element_screenshot_result b demo_svg verification_svg_png))
      then 1 else 0)"
proof
  show "count_list (calls (snd (verify_setup_main b (start disk)))) Close =
     (if returns (start_result b) \<and>
         returns (launch_result b True (Some [''--enable-unsafe-webgpu''])) \<and>
         returns (new_page_result b) \<and>
         returns (on_result b ''console'') \<and> returns (on_result b ''pageerror'')
      then 1 else 0)"
    by (simp add: setup_calls returns_def)
  show "count_list (calls (snd (verify_visualization b (start disk)))) Close =
     (if returns (start_result b) \<and> returns (launch_result b True None) \<and>
         returns (new_page_result b) \<and> returns (goto_result b dev_server) \<and>
         returns (page_screenshot_result b verification_png (Some True)) \<and>
         (case count_result b demo_svg of
            Inl e \<Rightarrow> False
          | Inr n \<Rightarrow>
              n = 0 \<or> returns (element_screenshot_result b demo_svg verification_svg_png))
      then 1 else 0)"
    by (simp add: vis_calls returns_def sum.case_eq_if)
qed

text \<open>
  \<^verbatim>\<open>verify_setup.py\<close> with no server on the port, and \<^verbatim>\<open>verify_visualization.py\<close>
  with the demo page: one call of \<^verbatim>\<open>browser.close()\<close> each.
\<close>

theorem close_invoked_witness:
  "count_list (calls (snd (verify_setup_main unreachable_browser (start Map.empty)))) Close = 1 \<and>
   count_list (calls (snd (verify_visualization demo_browser (start Map.empty)))) Close = 1"
  using close_invoked [of unreachable_browser Map.empty] close_invoked [of demo_browser Map.empty]
  by (simp add: demo_defs)

text \<open>
  \<^verbatim>\<open>verify_visualization.py\<close> with no server on the port: the browser was launched,
  \<^verbatim>\<open>page.goto\<close> raises, and \<^verbatim>\<open>browser.close()\<close> is never called.
\<close>

theorem close_skipped_on_failure:
  "Launch True None
     \<in> set (calls (snd (verify_visualization unreachable_browser (start Map.empty)))) \<and>
   count_list (calls (snd (verify_visualization unreachable_browser (start Map.empty)))) Close = 0"
  by (simp add: vis_calls demo_defs)

subsection \<open>An element capture without its element\<close>

text \<open>
  C3, as far as the code goes. When \<^verbatim>\<open>#demo-svg\<close> matches no node in a run of
  \<^verbatim>\<open>verify_visualization.py\<close> that got as far as counting, the element capture is
  skipped: the only calls left are \<^verbatim>\<open>browser.close()\<close> and leaving the context, so
  the run raises only if one of these two does; \<^verbatim>\<open>verification_svg.png\<close> is not
  written, it stays as it was before the run. Nothing is logged about the skip: the
  script prints nothing at all.
\<close>

theorem absent_svg_skipped:
  assumes "start_result b = Inr ()"
    and "launch_result b True None = Inr ()"
    and "new_page_result b = Inr ()"
    and "goto_result b dev_server = Inr ()"
    and "page_screenshot_result b verification_png (Some True) = Inr img"
    and "count_result b demo_svg = Inr 0"
  shows "calls (snd (verify_visualization b (start disk))) =
           [PlaywrightStart, Launch True None, NewPage, Goto dev_server, Sleep 5,
            PageScreenshot verification_png (Some True), Count demo_svg,
            Close, PlaywrightStop] \<and>
         files (snd (verify_visualization b (start disk))) verification_svg_png =
           disk verification_svg_png \<and>
         log (snd (verify_visualization b (start disk))) = [] \<and>
         fst (verify_visualization b (start disk)) =
           (case stop_result b of Inl e \<Rightarrow> Inl e | Inr u \<Rightarrow> close_result b)"
  using assms by (simp add: vis_calls vis_files vis_log vis_fst sum.case_eq_if)

text \<open>
  The demo page without \<^verbatim>\<open>#demo-svg\<close>, on an empty disk: no element capture, no
  file \<^verbatim>\<open>verification_svg.png\<close>, an empty log, a normal return.
\<close>

theorem absent_svg_skipped_witness:
  "calls (snd (verify_visualization no_svg_browser (start Map.empty))) =
     [PlaywrightStart, Launch True None, NewPage, Goto dev_server, Sleep 5,
      PageScreenshot verification_png (Some True), Count demo_svg,
      Close, PlaywrightStop] \<and>
   files (snd (verify_visualization no_svg_browser (start Map.empty))) verification_svg_png = None \<and>
   log (snd (verify_visualization no_svg_browser (start Map.empty))) = [] \<and>
   fst (verify_visualization no_svg_browser (start Map.empty)) = Inr ()"
  using absent_svg_skipped [of no_svg_browser png Map.empty]
  by (simp add: demo_defs)

text \<open>
  On that page the count is zero and the log of the run is empty: the skip is not logged.
\<close>

theorem absent_svg_not_logged:
  "count_result no_svg_browser demo_svg = Inr 0 \<and>
   log (snd (verify_visualization no_svg_browser (start Map.empty))) = []"
  by (simp add: vis_log demo_defs)

subsection \<open>Observers and navigation\<close>

text \<open>
  C4, as far as the code goes. In every run of \<^verbatim>\<open>verify_setup.py\<close> that issues
  \<^verbatim>\<open>page.goto\<close>, both observers were registered before; and when they are registered,
  the log of the run begins with the lines of the events that arrived during
  \<^verbatim>\<open>page.goto\<close>, in their order: none is missed.
\<close>

theorem observers_before_navigation:
  "(Goto dev_server \<in> set (calls (snd (verify_setup_main b (start disk)))) \<longrightarrow>
      On ''console'' \<in> set (takeWhile (\<lambda>c. c \<noteq> Goto dev_server)
                               (calls (snd (verify_setup_main b (start disk))))) \<and>
      On ''pageerror'' \<in> set (takeWhile (\<lambda>c. c \<noteq> Goto dev_server)
                                 (calls (snd (verify_setup_main b (start disk)))))) \<and>
   (start_result b = Inr () \<and>
    launch_result b True (Some [''--enable-unsafe-webgpu'']) = Inr () \<and>
    new_page_result b = Inr () \<and>
    on_result b ''console'' = Inr () \<and> on_result b ''pageerror'' = Inr () \<longrightarrow>
      take (length (emits b (Goto dev_server))) (log (snd (verify_setup_main b (start disk)))) =
        map line_of (emits b (Goto dev_server)))"
proof (intro conjI impI)
  assume "Goto dev_server \<in> set (calls (snd (verify_setup_main b (start disk))))"
  then show "On ''console'' \<in> set (takeWhile (\<lambda>c. c \<noteq> Goto dev_server)
                               (calls (snd (verify_setup_main b (start disk)))))"
    by (simp add: setup_calls split: if_splits)
next
  assume "Goto dev_server \<in> set (calls (snd (verify_setup_main b (start disk))))"
  then show "On ''pageerror'' \<in> set (takeWhile (\<lambda>c. c \<noteq> Goto dev_server)
                               (calls (snd (verify_setup_main b (start disk)))))"
    by (simp add: setup_calls split: if_splits)
next
  assume "start_result b = Inr () \<and>
    launch_result b True (Some [''--enable-unsafe-webgpu'']) = Inr () \<and>
    new_page_result b = Inr () \<and>
    on_result b ''console'' = Inr () \<and> on_result b ''pageerror'' = Inr ()"
  then show "take (length (emits b (Goto dev_server)))
      (log (snd (verify_setup_main b (start disk)))) = map line_of (emits b (Goto dev_server))"
    by (simp add: setup_log)
qed

text \<open>
  The demo page writes to the console while it loads; the line is the first of the log.
\<close>

theorem observers_before_navigation_witness:
  "On ''console'' \<in> set (takeWhile (\<lambda>c. c \<noteq> Goto dev_server)
                           (calls (snd (verify_setup_main demo_browser (start Map.empty))))) \<and>
   On ''pageerror'' \<in> set (takeWhile (\<lambda>c. c \<noteq> Goto dev_server)
                             (calls (snd (verify_setup_main demo_browser (start Map.empty))))) \<and>
   take 1 (log (snd (verify_setup_main demo_browser (start Map.empty)))) = [''Console: ready'']"
  using observers_before_navigation [of demo_browser Map.empty]
  by (simp add: setup_calls demo_defs on_console_def)

text \<open>
  \<^verbatim>\<open>verify_visualization.py\<close> navigates without registering any observer; the console
  message of the demo page is not logged.
\<close>

theorem visualization_registers_no_observer:
  "Goto dev_server \<in> set (calls (snd (verify_visualization demo_browser (start Map.empty)))) \<and>
   On ''console'' \<notin> set (calls (snd (verify_visualization demo_browser (start Map.empty)))) \<and>
   On ''pageerror'' \<notin> set (calls (snd (verify_visualization demo_browser (start Map.empty)))) \<and>
   emits demo_browser (Goto dev_server) = [ConsoleMessage ''ready''] \<and>
   log (snd (verify_visualization demo_browser (start Map.empty))) = []"
  by (simp add: vis_calls vis_log demo_defs)

subsection \<open>The order of the steps\<close>

text \<open>
  C6. In every run of either script, a visibility check, the title query or a capture
  is made only after \<^verbatim>\<open>page.goto\<close> has been called and has returned, and after the
  wait that follows it (\<^verbatim>\<open>wait_for_load_state\<close>, which has returned, in
  \<^verbatim>\<open>verify_setup.py\<close>; the fixed \<^verbatim>\<open>time.sleep(5)\<close> in
  \<^verbatim>\<open>verify_visualization.py\<close>): both calls stand in the trace before the check or
  capture. The whole trace is in the order of the phases, so no check follows a capture.
  And in the runs where the page is reached and its load-completion condition is met, the
  checks and captures are made: the trace goes on, right after navigation and wait, with
  the first of them.
\<close>

theorem navigate_check_capture_order:
  "sorted (map phase (calls (snd (verify_setup_main b (start disk))))) \<and>
   sorted (map phase (calls (snd (verify_visualization b (start disk))))) \<and>
   (\<forall>c \<in> set (calls (snd (verify_setup_main b (start disk)))).
      phase c = 3 \<or> phase c = 4 \<longrightarrow>
        returns (goto_result b dev_server) \<and>
        returns (wait_for_load_state_result b networkidle) \<and>
        Goto dev_server \<in> set (takeWhile (\<lambda>x. x \<noteq> c)
                                 (calls (snd (verify_setup_main b (start disk))))) \<and>
        WaitForLoadState networkidle \<in> set (takeWhile (\<lambda>x. x \<noteq> c)
                                 (calls (snd (verify_setup_main b (start disk)))))) \<and>
   (\<forall>c \<in> set (calls (snd (verify_visualization b (start disk)))).
      phase c = 3 \<or> phase c = 4 \<longrightarrow>
        returns (goto_result b dev_server) \<and>
        Goto dev_server \<in> set (takeWhile (\<lambda>x. x \<noteq> c)
                                 (calls (snd (verify_visualization b (start disk))))) \<and>
        Sleep 5 \<in> set (takeWhile (\<lambda>x. x \<noteq> c)
                                 (calls (snd (verify_visualization b (start disk)))))) \<and>
   (start_result b = Inr () \<and>
    launch_result b True (Some [''--enable-unsafe-webgpu'']) = Inr () \<and>
    new_page_result b = Inr () \<and>
    on_result b ''console'' = Inr () \<and> on_result b ''pageerror'' = Inr () \<and>
    goto_result b dev_server = Inr () \<and>
    wait_for_load_state_result b networkidle = Inr () \<longrightarrow>
      take 8 (calls (snd (verify_setup_main b (start disk)))) =
        [PlaywrightStart, Launch True (Some [''--enable-unsafe-webgpu'']), NewPage,
         On ''console'', On ''pageerror'', Goto dev_server, WaitForLoadState networkidle,
         Title]) \<and>
   (start_result b = Inr () \<and> launch_result b True None = Inr () \<and>
    new_page_result b = Inr () \<and> goto_result b dev_server = Inr () \<longrightarrow>
      take 6 (calls (snd (verify_visualization b (start disk)))) =
        [PlaywrightStart, Launch True None, NewPage, Goto dev_server, Sleep 5,
         PageScreenshot verification_png (Some True)])"
proof (intro conjI ballI impI)
  show "sorted (map phase (calls (snd (verify_setup_main b (start disk)))))"
    by (simp add: setup_calls)
  show "sorted (map phase (calls (snd (verify_visualization b (start disk)))))"
    by (simp add: vis_calls)
next
  fix c
  assume c: "c \<in> set (calls (snd (verify_setup_main b (start disk))))"
    and p: "phase c = 3 \<or> phase c = 4"
  from c p show "returns (goto_result b dev_server)"
    by (auto simp add: setup_calls returns_def split: if_splits)
  from c p show "returns (wait_for_load_state_result b networkidle)"
    by (auto simp add: setup_calls returns_def split: if_splits)
  from c p show "Goto dev_server \<in> set (takeWhile (\<lambda>x. x \<noteq> c)
                                 (calls (snd (verify_setup_main b (start disk)))))"
    by (auto simp add: setup_calls split: if_splits)
  from c p show "WaitForLoadState networkidle \<in> set (takeWhile (\<lambda>x. x \<noteq> c)
                                 (calls (snd (verify_setup_main b (start disk)))))"
    by (auto simp add: setup_calls split: if_splits)
next
  fix c
  assume c: "c \<in> set (calls (snd (verify_visualization b (start disk))))"
    and p: "phase c = 3 \<or> phase c = 4"
  from c p show "returns (goto_result b dev_server)"
    by (auto simp add: vis_calls returns_def split: if_splits)
  from c p show "Goto dev_server \<in> set (takeWhile (\<lambda>x. x \<noteq> c)
                                 (calls (snd (verify_visualization b (start disk)))))"
    by (auto simp add: vis_calls split: if_splits)
  from c p show "Sleep 5 \<in> set (takeWhile (\<lambda>x. x \<noteq> c)
                                 (calls (snd (verify_visualization b (start disk)))))"
    by (auto simp add: vis_calls split: if_splits)
next
  assume "start_result b = Inr () \<and>
    launch_result b True (Some [''--enable-unsafe-webgpu'']) = Inr () \<and>
    new_page_result b = Inr () \<and>
    on_result b ''console'' = Inr () \<and> on_result b ''pageerror'' = Inr () \<and>
    goto_result b dev_server = Inr () \<and>
    wait_for_load_state_result b networkidle = Inr ()"
  then show "take 8 (calls (snd (verify_setup_main b (start disk)))) =
        [PlaywrightStart, Launch True (Some [''--enable-unsafe-webgpu'']), NewPage,
         On ''console'', On ''pageerror'', Goto dev_server, WaitForLoadState networkidle,
         Title]"
    by (simp add: setup_calls)
next
  assume "start_result b = Inr () \<and> launch_result b True None = Inr () \<and>
    new_page_result b = Inr () \<and> goto_result b dev_server = Inr ()"
  then show "take 6 (calls (snd (verify_visualization b (start disk)))) =
        [PlaywrightStart, Launch True None, NewPage, Goto dev_server, Sleep 5,
         PageScreenshot verification_png (Some True)]"
    by (simp add: vis_calls)
qed

text \<open>
  On the demo page: navigation, wait, then the title query in \<^verbatim>\<open>verify_setup.py\<close>
  and the page capture in \<^verbatim>\<open>verify_visualization.py\<close>.
\<close>

theorem navigate_check_capture_order_witness:
  "take 8 (calls (snd (verify_setup_main demo_browser (start Map.empty)))) =
     [PlaywrightStart, Launch True (Some [''--enable-unsafe-webgpu'']), NewPage,
      On ''console'', On ''pageerror'', Goto dev_server, WaitForLoadState networkidle,
      Title] \<and>
   take 6 (calls (snd (verify_visualization demo_browser (start Map.empty)))) =
     [PlaywrightStart, Launch True None, NewPage, Goto dev_server, Sleep 5,
      PageScreenshot verification_png (Some True)]"
  using navigate_check_capture_order [of demo_browser Map.empty,
      THEN conjunct2, THEN conjunct2, THEN conjunct2, THEN conjunct2]
  by (simp add: demo_defs)

subsection \<open>The demo scenario\<close>

text \<open>
  C7, as far as the code goes. The title and the slider alone do not decide the run:
  every call of the \<^verbatim>\<open>try\<close> block must return. When the browser starts, the
  observers are registered, \<^verbatim>\<open>page.goto\<close> to \<^verbatim>\<open>http://localhost:5173\<close> returns,
  the page becomes idle within the wait, its title is Demo, the query for
  \<^verbatim>\<open>.sidebar\<close> returns, \<^verbatim>\<open>#num-a\<close> is visible and the screenshot returns an image
  that is not empty, then the run of \<^verbatim>\<open>verify_setup.py\<close> makes exactly the calls
  below, its log contains the lines \<^verbatim>\<open>Page title: Demo\<close> and
  \<^verbatim>\<open>Slider A is visible\<close>, and \<^verbatim>\<open>verification.png\<close> exists and is not empty.
\<close>

theorem demo_scenario:
  assumes "start_result b = Inr ()"
    and "launch_result b True (Some [''--enable-unsafe-webgpu'']) = Inr ()"
    and "new_page_result b = Inr ()"
    and "on_result b ''console'' = Inr ()"
    and "on_result b ''pageerror'' = Inr ()"
    and "goto_result b dev_server = Inr ()"
    and "wait_for_load_state_result b networkidle = Inr ()"
    and "title_result b = Inr ''Demo''"
    and "is_visible_result b sidebar = Inr sidebar_visible"
    and "is_visible_result b num_a = Inr True"
    and "page_screenshot_result b verification_png None = Inr img"
    and "img \<noteq> []"
  shows "calls (snd (verify_setup_main b (start disk))) =
           [PlaywrightStart, Launch True (Some [''--enable-unsafe-webgpu'']), NewPage,
            On ''console'', On ''pageerror'', Goto dev_server,
            WaitForLoadState networkidle, Title, IsVisible sidebar, IsVisible num_a,
            PageScreenshot verification_png None, Close, PlaywrightStop] \<and>
         ''Page title: Demo'' \<in> set (log (snd (verify_setup_main b (start disk)))) \<and>
         ''Slider A is visible'' \<in> set (log (snd (verify_setup_main b (start disk)))) \<and>
         (\<exists>bytes. files (snd (verify_setup_main b (start disk))) verification_png = Some bytes
            \<and> bytes \<noteq> [])"
  using assms by (simp add: setup_calls setup_log setup_files)

text \<open>
  The demo page.
\<close>

theorem demo_scenario_witness:
  "calls (snd (verify_setup_main demo_browser (start Map.empty))) =
     [PlaywrightStart, Launch True (Some [''--enable-unsafe-webgpu'']), NewPage,
      On ''console'', On ''pageerror'', Goto dev_server,
      WaitForLoadState networkidle, Title, IsVisible sidebar, IsVisible num_a,
      PageScreenshot verification_png None, Close, PlaywrightStop] \<and>
   ''Page title: Demo'' \<in> set (log (snd (verify_setup_main demo_browser (start Map.empty)))) \<and>
   ''Slider A is visible'' \<in> set (log (snd (verify_setup_main demo_browser (start Map.empty)))) \<and>
   (\<exists>bytes. files (snd (verify_setup_main demo_browser (start Map.empty))) verification_png =
      Some bytes \<and> bytes \<noteq> [])"
  using demo_scenario [of demo_browser True png Map.empty]
  by (simp add: demo_defs png_def)

text \<open>
  The same page, served with title Demo and a visible \<^verbatim>\<open>#num-a\<close>, but never idle:
  the wait raises inside the \<^verbatim>\<open>try\<close> block, neither line is logged and
  \<^verbatim>\<open>verification.png\<close> is not created.
\<close>

theorem demo_page_never_idle:
  "goto_result never_idle_browser dev_server = Inr () \<and>
   title_result never_idle_browser = Inr ''Demo'' \<and>
   is_visible_result never_idle_browser num_a = Inr True \<and>
   ''Page title: Demo''
     \<notin> set (log (snd (verify_setup_main never_idle_browser (start Map.empty)))) \<and>
   ''Slider A is visible''
     \<notin> set (log (snd (verify_setup_main never_idle_browser (start Map.empty)))) \<and>
   files (snd (verify_setup_main never_idle_browser (start Map.empty))) verification_png = None"
  by (simp add: setup_log setup_files verify_try_fst demo_defs on_console_def)

subsection \<open>What is captured, and where\<close>

text \<open>
  C8, as far as the code goes. Every capture of \<^verbatim>\<open>verify_setup.py\<close> is a capture of
  the page into \<^verbatim>\<open>verification.png\<close> without the \<^verbatim>\<open>full_page\<close> argument; every
  capture of \<^verbatim>\<open>verify_visualization.py\<close> is a capture of the page into
  \<^verbatim>\<open>verification.png\<close> with \<^verbatim>\<open>full_page=True\<close>, or of the element
  \<^verbatim>\<open>#demo-svg\<close> into \<^verbatim>\<open>verification_svg.png\<close>. No other file is touched, and a
  capture that returns replaces whatever its file held.
\<close>

theorem captures_fixed:
  "list_all (capture_as None) (calls (snd (verify_setup_main b (start disk)))) \<and>
   list_all (capture_as (Some True)) (calls (snd (verify_visualization b (start disk)))) \<and>
   (\<forall>p. p \<noteq> verification_png \<longrightarrow>
      files (snd (verify_setup_main b (start disk))) p = disk p) \<and>
   (\<forall>p. p \<noteq> verification_png \<and> p \<noteq> verification_svg_png \<longrightarrow>
      files (snd (verify_visualization b (start disk))) p = disk p) \<and>
   (\<forall>img. PageScreenshot verification_png None
             \<in> set (calls (snd (verify_setup_main b (start disk)))) \<and>
          page_screenshot_result b verification_png None = Inr img \<longrightarrow>
      files (snd (verify_setup_main b (start disk))) verification_png = Some img) \<and>
   (\<forall>img. PageScreenshot verification_png (Some True)
             \<in> set (calls (snd (verify_visualization b (start disk)))) \<and>
          page_screenshot_result b verification_png (Some True) = Inr img \<longrightarrow>
      files (snd (verify_visualization b (start disk))) verification_png = Some img) \<and>
   (\<forall>img. ElementScreenshot demo_svg verification_svg_png
             \<in> set (calls (snd (verify_visualization b (start disk)))) \<and>
          element_screenshot_result b demo_svg verification_svg_png = Inr img \<longrightarrow>
      files (snd (verify_visualization b (start disk))) verification_svg_png = Some img)"
proof (intro conjI allI impI)
  show "list_all (capture_as None) (calls (snd (verify_setup_main b (start disk))))"
    by (simp add: setup_calls)
  show "list_all (capture_as (Some True)) (calls (snd (verify_visualization b (start disk))))"
    by (simp add: vis_calls)
next
  fix p :: path
  assume "p \<noteq> verification_png"
  then show "files (snd (verify_setup_main b (start disk))) p = disk p"
    by (simp add: setup_files split: sum.splits)
next
  fix p :: path
  assume "p \<noteq> verification_png \<and> p \<noteq> verification_svg_png"
  then show "files (snd (verify_visualization b (start disk))) p = disk p"
    by (simp add: vis_files sum.case_eq_if)
next
  fix img
  assume "PageScreenshot verification_png None
            \<in> set (calls (snd (verify_setup_main b (start disk)))) \<and>
          page_screenshot_result b verification_png None = Inr img"
  then show "files (snd (verify_setup_main b (start disk))) verification_png = Some img"
    by (simp add: setup_calls setup_files split: if_splits)
next
  fix img
  assume "PageScreenshot verification_png (Some True)
            \<in> set (calls (snd (verify_visualization b (start disk)))) \<and>
          page_screenshot_result b verification_png (Some True) = Inr img"
  then show "files (snd (verify_visualization b (start disk))) verification_png = Some img"
    by (simp add: vis_calls vis_files sum.case_eq_if split: if_splits)
next
  fix img
  assume "ElementScreenshot demo_svg verification_svg_png
            \<in> set (calls (snd (verify_visualization b (start disk)))) \<and>
          element_screenshot_result b demo_svg verification_svg_png = Inr img"
  then show "files (snd (verify_visualization b (start disk))) verification_svg_png = Some img"
    by (simp add: vis_calls vis_files sum.case_eq_if split: if_splits)
qed

text \<open>
  A disk with an old \<^verbatim>\<open>verification.png\<close> and another file: the other file stays,
  the screenshots are the new ones.
\<close>

theorem captures_fixed_witness:
  "files (snd (verify_setup_main demo_browser (start [verification_png \<mapsto> [0], ''notes.txt'' \<mapsto> [1]])))
     ''notes.txt'' = Some [1] \<and>
   files (snd (verify_setup_main demo_browser (start [verification_png \<mapsto> [0], ''notes.txt'' \<mapsto> [1]])))
     verification_png = Some png \<and>
   files (snd (verify_visualization demo_browser (start [verification_png \<mapsto> [0], ''notes.txt'' \<mapsto> [1]])))
     verification_png = Some png \<and>
   files (snd (verify_visualization demo_browser (start [verification_png \<mapsto> [0], ''notes.txt'' \<mapsto> [1]])))
     verification_svg_png = Some png"
  using captures_fixed [of demo_browser "[verification_png \<mapsto> [0], ''notes.txt'' \<mapsto> [1]]"]
  by (simp add: setup_calls vis_calls demo_defs verification_png_def verification_svg_png_def)

text \<open>
  The capture of \<^verbatim>\<open>verify_setup.py\<close> does not ask for the full page and is not
  scoped to an element.
\<close>

theorem setup_capture_is_not_full_page:
  "\<not> list_all full_page_or_element
       (calls (snd (verify_setup_main demo_browser (start Map.empty))))"
  by (simp add: setup_calls demo_defs)

subsection \<open>Files after a failure\<close>

text \<open>
  C9. A file that a capture has written stays as written when a later step of the run
  fails: \<^verbatim>\<open>verification.png\<close> of \<^verbatim>\<open>verify_visualization.py\<close> whatever the count,
  the element capture, the close and the exit do; \<^verbatim>\<open>verification_svg.png\<close> whatever
  the close and the exit do; \<^verbatim>\<open>verification.png\<close> of \<^verbatim>\<open>verify_setup.py\<close> whatever
  the close and the exit do. A run that fails at navigation leaves the disk as it found
  it, and no run removes a file.
\<close>

theorem captured_files_remain:
  "(start_result b = Inr () \<and> launch_result b True None = Inr () \<and>
    new_page_result b = Inr () \<and> goto_result b dev_server = Inr () \<and>
    page_screenshot_result b verification_png (Some True) = Inr img \<longrightarrow>
      files (snd (verify_visualization b (start disk))) verification_png = Some img) \<and>
   (start_result b = Inr () \<and> launch_result b True None = Inr () \<and>
    new_page_result b = Inr () \<and> goto_result b dev_server = Inr () \<and>
    page_screenshot_result b verification_png (Some True) = Inr img \<and>
    count_result b demo_svg = Inr n \<and> 0 < n \<and>
    element_screenshot_result b demo_svg verification_svg_png = Inr img' \<longrightarrow>
      files (snd (verify_visualization b (start disk))) verification_svg_png = Some img') \<and>
   (start_result b = Inr () \<and>
    launch_result b True (Some [''--enable-unsafe-webgpu'']) = Inr () \<and>
    new_page_result b = Inr () \<and>
    on_result b ''console'' = Inr () \<and> on_result b ''pageerror'' = Inr () \<and>
    goto_result b dev_server = Inr () \<and>
    wait_for_load_state_result b networkidle = Inr () \<and>
    returns (title_result b) \<and> returns (is_visible_result b sidebar) \<and>
    returns (is_visible_result b num_a) \<and>
    page_screenshot_result b verification_png None = Inr img \<longrightarrow>
      files (snd (verify_setup_main b (start disk))) verification_png = Some img) \<and>
   (isl (goto_result b dev_server) \<longrightarrow>
      files (snd (verify_setup_main b (start disk))) = disk \<and>
      files (snd (verify_visualization b (start disk))) = disk) \<and>
   dom disk \<subseteq> dom (files (snd (verify_setup_main b (start disk)))) \<and>
   dom disk \<subseteq> dom (files (snd (verify_visualization b (start disk))))"
proof (intro conjI impI)
  assume "start_result b = Inr () \<and> launch_result b True None = Inr () \<and>
    new_page_result b = Inr () \<and> goto_result b dev_server = Inr () \<and>
    page_screenshot_result b verification_png (Some True) = Inr img"
  then show "files (snd (verify_visualization b (start disk))) verification_png = Some img"
    by (simp add: vis_files sum.case_eq_if)
next
  assume "start_result b = Inr () \<and> launch_result b True None = Inr () \<and>
    new_page_result b = Inr () \<and> goto_result b dev_server = Inr () \<and>
    page_screenshot_result b verification_png (Some True) = Inr img \<and>
    count_result b demo_svg = Inr n \<and> 0 < n \<and>
    element_screenshot_result b demo_svg verification_svg_png = Inr img'"
  then show "files (snd (verify_visualization b (start disk))) verification_svg_png = Some img'"
    by (simp add: vis_files)
next
  assume "start_result b = Inr () \<and>
    launch_result b True (Some [''--enable-unsafe-webgpu'']) = Inr () \<and>
    new_page_result b = Inr () \<and>
    on_result b ''console'' = Inr () \<and> on_result b ''pageerror'' = Inr () \<and>
    goto_result b dev_server = Inr () \<and>
    wait_for_load_state_result b networkidle = Inr () \<and>
    returns (title_result b) \<and> returns (is_visible_result b sidebar) \<and>
    returns (is_visible_result b num_a) \<and>
    page_screenshot_result b verification_png None = Inr img"
  then show "files (snd (verify_setup_main b (start disk))) verification_png = Some img"
    by (simp add: setup_files returns_def)
next
  assume "isl (goto_result b dev_server)"
  then show "files (snd (verify_setup_main b (start disk))) = disk"
    by (simp add: setup_files)
next
  assume "isl (goto_result b dev_server)"
  then show "files (snd (verify_visualization b (start disk))) = disk"
    by (simp add: vis_files)
next
  show "dom disk \<subseteq> dom (files (snd (verify_setup_main b (start disk))))"
    by (auto simp add: setup_files split: sum.splits if_splits)
  show "dom disk \<subseteq> dom (files (snd (verify_visualization b (start disk))))"
    by (auto simp add: vis_files split: sum.splits if_splits)
qed

text \<open>
  The browser dies after the page capture: \<^verbatim>\<open>verify_visualization.py\<close> raises, and
  the screenshot is on disk; so is the one of \<^verbatim>\<open>verify_setup.py\<close>. With no server
  on the port, an old screenshot stays untouched.
\<close>

theorem captured_files_remain_witness:
  "fst (verify_visualization dying_browser (start Map.empty)) = Inl (Error ''Target closed'') \<and>
   files (snd (verify_visualization dying_browser (start Map.empty))) verification_png = Some png \<and>
   files (snd (verify_setup_main dying_browser (start Map.empty))) verification_png = Some png \<and>
   files (snd (verify_setup_main unreachable_browser (start [verification_png \<mapsto> [0]]))) =
     [verification_png \<mapsto> [0]]"
  using captured_files_remain [of dying_browser png Map.empty]
    captured_files_remain [of unreachable_browser png "[verification_png \<mapsto> [0]]"]
  by (simp add: vis_fst demo_defs)

subsection \<open>The log of verify\_setup.py\<close>

text \<open>
  C10. When a run of \<^verbatim>\<open>verify_setup.py\<close> gets as far as the check of \<^verbatim>\<open>#num-a\<close>,
  its log is, line for line: the events heard during navigation, load and title query,
  the title line, the events heard during the check of \<^verbatim>\<open>.sidebar\<close>, one line for
  the sidebar whether it is visible or not, the events heard during the check of
  \<^verbatim>\<open>#num-a\<close>, then the line \<^verbatim>\<open>Slider A is visible\<close> if the slider is visible and
  nothing if it is not, then what the capture and the closing add.
\<close>

theorem slider_logged_only_when_visible:
  assumes "start_result b = Inr ()"
    and "launch_result b True (Some [''--enable-unsafe-webgpu'']) = Inr ()"
    and "new_page_result b = Inr ()"
    and "on_result b ''console'' = Inr ()"
    and "on_result b ''pageerror'' = Inr ()"
    and "goto_result b dev_server = Inr ()"
    and "wait_for_load_state_result b networkidle = Inr ()"
    and "title_result b = Inr title"
    and "is_visible_result b sidebar = Inr sidebar_visible"
    and "is_visible_result b num_a = Inr slider_a_visible"
  shows "log (snd (verify_setup_main b (start disk))) =
           map line_of (emits b (Goto dev_server)) @
           map line_of (emits b (WaitForLoadState networkidle)) @
           map line_of (emits b Title) @
           [''Page title: '' @ title] @
           map line_of (emits b (IsVisible sidebar)) @
           [if sidebar_visible then ''Sidebar is visible'' else ''Sidebar is NOT visible''] @
           map line_of (emits b (IsVisible num_a)) @
           (if slider_a_visible then [''Slider A is visible''] else []) @
           map line_of (emits b (PageScreenshot verification_png None)) @
           (case page_screenshot_result b verification_png None of
              Inl e \<Rightarrow> [''Error during verification: '' @ str e]
            | Inr img \<Rightarrow> []) @
           map line_of (emits b Close) @
           map line_of (emits b PlaywrightStop)"
  using assms by (simp add: setup_log verify_try_fst split: sum.splits)

text \<open>
  The demo page with the slider hidden, and with the slider visible.
\<close>

theorem slider_logged_only_when_visible_witness:
  "log (snd (verify_setup_main hidden_slider_browser (start Map.empty))) =
     [''Console: ready'', ''Page title: Demo'', ''Sidebar is visible''] \<and>
   log (snd (verify_setup_main demo_browser (start Map.empty))) =
     [''Console: ready'', ''Page title: Demo'', ''Sidebar is visible'', ''Slider A is visible'']"
  using slider_logged_only_when_visible [of hidden_slider_browser "''Demo''" True False Map.empty]
    slider_logged_only_when_visible [of demo_browser "''Demo''" True True Map.empty]
  by (simp add: demo_defs on_console_def sidebar_def num_a_def)

end
